theory Spec2Isabelle
  imports Main "HOL-Library.AList"
begin

section \<open>Application template configuration\<close>




subsection \<open>The lodash functions used by the aggregator\<close>






subsection \<open>getApplicationTemplatesConfig\<close>





section \<open>Rule condition editor\<close>

text \<open>
  The component \<^verbatim>\<open>RuleConditions\<close> and the components it declares in its body. The models
  of \<^verbatim>\<open>../models/rules\<close>, \<^verbatim>\<open>../models/meta\<close> and \<^verbatim>\<open>../models/resource\<close> are not part of
  the sources; the records below hold the properties that the component reads. An optional
  property (one the component reads through \<^verbatim>\<open>?.\<close>) is an \<open>option\<close>, with \<open>None\<close> for
  \<^verbatim>\<open>undefined\<close>. The property \<^verbatim>\<open>id\<close> is \<open>rule_id\<close>, \<open>condition_id\<close> and
  \<open>expression_id\<close>; the property \<^verbatim>\<open>condition\<close> (the adjoining operator) is
  \<open>rule_condition\<close> on a rule and \<open>condition_condition\<close> on a condition; the property
  \<^verbatim>\<open>values\<close> of a value descriptor is \<open>meta_values\<close>.
\<close>

datatype AdjoiningOperatorTypes = And | Or

datatype ExpressionFieldTypes = Field_kind | Operator_kind | Value_kind

record ConditionExpressionInterface =
  expression_id :: string
  expression_field :: string
  expression_operator :: string
  expression_value :: string

record RuleConditionInterface =
  condition_id :: string
  condition_condition :: AdjoiningOperatorTypes
  expressions :: "ConditionExpressionInterface list"

record RuleInterface =
  rule_id :: string
  rule_condition :: AdjoiningOperatorTypes
  rules :: "RuleConditionInterface list"

record ListDataInterface =
  name :: string
  displayName :: string

record LinkInterface =
  href :: string
  rel :: string

record ExpressionValueInterface =
  inputType :: string
  meta_values :: "ListDataInterface list option"
  links :: "LinkInterface list option"
  valueReferenceAttribute :: "string option"
  valueDisplayAttribute :: "string option"

record ConditionExpressionMetaInterface =
  meta_field :: "ListDataInterface option"
  operators :: "ListDataInterface list option"
  meta_value :: "ExpressionValueInterface option"

text \<open>
  A resource is an opaque record read by attribute name (\<^verbatim>\<open>resource[attribute]\<close>). A
  resource collection is the wire shape of a list response: arrays of resources keyed by
  resource-type name, and the two numbers \<^verbatim>\<open>totalResults\<close> and \<^verbatim>\<open>count\<close>.
\<close>

type_synonym ResourceInterface = "(string \<times> string) list"

record ResourceCollection =
  collection :: "(string \<times> ResourceInterface list) list"
  totalResults :: "int option"
  count :: "int option"

subsection \<open>JavaScript operators\<close>

text \<open>\<^verbatim>\<open>a > b\<close> on numbers that may be \<^verbatim>\<open>undefined\<close>: false as soon as one of them is.\<close>

fun js_gt :: "int option \<Rightarrow> int option \<Rightarrow> bool" where
  "js_gt (Some a) (Some b) = (a > b)"
| "js_gt _ _ = False"

text \<open>Truthiness of an optional boolean and of an optional string.\<close>

fun truthy :: "bool option \<Rightarrow> bool" where
  "truthy (Some b) = b"
| "truthy None = False"

fun truthy_string :: "string option \<Rightarrow> bool" where
  "truthy_string (Some s) = (s \<noteq> [])"
| "truthy_string None = False"

text \<open>\<^verbatim>\<open>a || b\<close> on an optional string and a default.\<close>

fun or_default :: "string option \<Rightarrow> string \<Rightarrow> string" where
  "or_default (Some s) d = (if s \<noteq> [] then s else d)"
| "or_default None d = d"

text \<open>A property key that may be \<^verbatim>\<open>undefined\<close>: JavaScript reads the key \<^verbatim>\<open>"undefined"\<close>.\<close>

fun js_key :: "string option \<Rightarrow> string" where
  "js_key (Some k) = k"
| "js_key None = ''undefined''"

datatype js_error = TypeError

subsection \<open>Calls on the rules context and actions of the handlers\<close>

text \<open>
  The rules context (\<^verbatim>\<open>useRulesContext\<close>) is not part of the sources. A call on it is a
  value; the first argument of \<^verbatim>\<open>updateConditionExpression\<close> is the changed value, which
  is \<open>None\<close> when the component passes \<^verbatim>\<open>undefined\<close>; the last one is
  \<^verbatim>\<open>isUserOnChange\<close>.
\<close>

datatype context_call =
    updateConditionExpression "string option" string string string ExpressionFieldTypes bool
  | addNewRuleConditionExpression string string AdjoiningOperatorTypes "string option"
  | removeRuleConditionExpression string string

text \<open>
  What a handler, an effect or the body of a render does: it calls the context at once, it
  calls the debounced function \<^verbatim>\<open>handleExpressionChangeDebounced\<close>, or it sets a piece of
  local state.
\<close>

datatype action =
    Call context_call
  | handleExpressionChangeDebounced "string option" string string string ExpressionFieldTypes bool
  | setIsResourceMissing bool
  | setResourceDetails "ResourceInterface option"
  | setInputValueLabel string
  | setOpen bool

subsection \<open>Props and rendered elements\<close>

record ComponentCommonPropsInterface =
  conditionId :: string
  expressionId :: string
  expressionValue :: string
  ruleId :: string

record ResourceListSelectProps = ComponentCommonPropsInterface +
  expressionField :: string
  filterBaseResourcesUrl :: string
  findMetaValuesAgainst :: "ConditionExpressionMetaInterface option"
  initialResourcesLoadUrl :: string

record ValueInputAutocompleteProps = ComponentCommonPropsInterface +
  resourceDetails :: "ResourceInterface option"
  ac_valueReferenceAttribute :: string
  ac_valueDisplayAttribute :: string
  resourceType :: "string option"
  ac_initialResourcesLoadUrl :: string
  ac_filterBaseResourcesUrl :: string

record ConditionValueInputProps = ComponentCommonPropsInterface +
  metaValue :: "ExpressionValueInterface option"
  cvi_findMetaValuesAgainst :: "ConditionExpressionMetaInterface option"
  cvi_expressionField :: string

record RuleExpressionComponentProps =
  expression :: ConditionExpressionInterface
  re_ruleId :: string
  re_conditionId :: string
  isConditionExpressionRemovable :: bool

text \<open>
  What \<^verbatim>\<open>ConditionValueInput\<close> returns. An element keeps the props that its handlers
  capture; \<open>disabled\<close> is the truthiness of \<^verbatim>\<open>readonly\<close>. \<open>Null\<close> is \<^verbatim>\<open>null\<close>: nothing
  is rendered.
\<close>

datatype value_element =
    TextField bool ConditionValueInputProps
  | OptionsSelect bool ConditionValueInputProps "ListDataInterface list"
  | ResourceListSelectElement ResourceListSelectProps
  | Null

text \<open>An entry of the autocomplete's option list and of a resource dropdown.\<close>

record ValueInputAutocompleteOptionsInterface =
  option_id :: "string option"
  option_label :: "string option"
  isDisabled :: "bool option"

datatype resource_element =
    ValueInputAutocompleteElement ValueInputAutocompleteProps
  | ResourceSelect bool ResourceListSelectProps "(string option \<times> string option) list"

text \<open>What \<^verbatim>\<open>RuleExpression\<close> returns: one row of the editor.\<close>

record expression_row =
  row_props :: RuleExpressionComponentProps
  alert :: bool
  controls_disabled :: bool
  field_items :: "ListDataInterface option list"
  operator_items :: "ListDataInterface list"
  value_input :: value_element
  remove_fab :: bool

text \<open>
  What the tree renderer returns for one condition: the rows of its expressions and whether
  the divider with the OR button follows them.
\<close>

record condition_fragment =
  fragment_condition :: RuleConditionInterface
  rows :: "expression_row list"
  or_divider :: bool

subsection \<open>ConditionValueInput\<close>

text \<open>
  The value input resolver. It returns the calls that the body of the render makes and the
  element. \<^verbatim>\<open>metaValue?.inputType === "input" || null\<close> is truthy exactly when the input
  type is \<^verbatim>\<open>"input"\<close>; a missing \<^verbatim>\<open>metaValue\<close> fails both comparisons and gives
  \<^verbatim>\<open>null\<close>.
\<close>

definition ConditionValueInput :: "bool option \<Rightarrow> ConditionValueInputProps \<Rightarrow> action list \<times> value_element" where
  "ConditionValueInput readonly props =
     (case metaValue props of
        None \<Rightarrow> ([], Null)
      | Some mv \<Rightarrow>
          if inputType mv = ''input'' then ([], TextField (truthy readonly) props)
          else if inputType mv = ''options'' then
            (if (case meta_values mv of None \<Rightarrow> False | Some vs \<Rightarrow> length vs > 1) then
               ((if expressionValue props = '''' then
                   [handleExpressionChangeDebounced (Some (name (hd (the (meta_values mv)))))
                      (ruleId props) (conditionId props) (expressionId props) Value_kind False]
                 else []),
                OptionsSelect (truthy readonly) props (the (meta_values mv)))
             else if (case links mv of None \<Rightarrow> False | Some ls \<Rightarrow> length ls > 1) then
               (let initialResourcesLoadUrl =
                      map_option href (find (\<lambda>link. rel link = ''values'') (the (links mv)));
                    filterBaseResourcesUrl =
                      map_option href (find (\<lambda>link. rel link = ''filter'') (the (links mv)))
                in if truthy_string initialResourcesLoadUrl \<and> truthy_string filterBaseResourcesUrl then
                     ([], ResourceListSelectElement
                        \<lparr> conditionId = conditionId props,
                          expressionId = expressionId props,
                          expressionValue = expressionValue props,
                          ruleId = ruleId props,
                          expressionField = cvi_expressionField props,
                          filterBaseResourcesUrl = the filterBaseResourcesUrl,
                          findMetaValuesAgainst = cvi_findMetaValuesAgainst props,
                          initialResourcesLoadUrl = the initialResourcesLoadUrl \<rparr>)
                   else ([], Null))
             else ([], Null))
          else ([], Null))"

text \<open>
  The \<^verbatim>\<open>onChange\<close> handlers of the elements: the text field calls the debounced function,
  the dropdown calls the context at once.
\<close>

fun value_element_onChange :: "value_element \<Rightarrow> string \<Rightarrow> action list" where
  "value_element_onChange (TextField disabled props) v =
     [handleExpressionChangeDebounced (Some v) (ruleId props) (conditionId props) (expressionId props)
        Value_kind True]"
| "value_element_onChange (OptionsSelect disabled props items) v =
     [Call (updateConditionExpression (Some v) (ruleId props) (conditionId props) (expressionId props)
        Value_kind True)]"
| "value_element_onChange (ResourceListSelectElement props) v = []"
| "value_element_onChange Null v = []"

subsection \<open>ResourceListSelect\<close>

text \<open>
  \<open>resourceDetailsState\<close> is the local state \<^verbatim>\<open>resourceDetails\<close>, \<open>fetchedResourcesList\<close>
  the data of the list fetch (\<open>None\<close> while there is none). When the expression's value is
  empty the body reads \<^verbatim>\<open>fetchedResourcesList[resourceType][0]?.id\<close>: the read of index 0
  raises a \<^verbatim>\<open>TypeError\<close> when the collection has no property under the resource type, and
  \<^verbatim>\<open>?.id\<close> gives \<^verbatim>\<open>undefined\<close> when the array is empty. When there is no fetched list
  the component returns \<^verbatim>\<open>undefined\<close> (\<open>None\<close>).
\<close>

definition resourceTypeOf :: "string \<Rightarrow> string option" where
  "resourceTypeOf field = (if field = ''application'' then Some ''applications'' else None)"

definition resourceDetailsUrl :: "ResourceListSelectProps \<Rightarrow> string" where
  "resourceDetailsUrl props =
     ''/'' @ js_key (resourceTypeOf (expressionField props)) @ ''/'' @ expressionValue props"

definition ResourceListSelect ::
  "bool option \<Rightarrow> ResourceListSelectProps \<Rightarrow> ResourceInterface option \<Rightarrow> ResourceCollection option
     \<Rightarrow> js_error + (action list \<times> resource_element option)" where
  "ResourceListSelect readonly props resourceDetailsState fetchedResourcesList =
     (let referenceAttribute =
            or_default (Option.bind (Option.bind (findMetaValuesAgainst props) meta_value)
                          valueReferenceAttribute) ''id'';
          displayAttribute =
            or_default (Option.bind (Option.bind (findMetaValuesAgainst props) meta_value)
                          valueDisplayAttribute) ''name'';
          resourceType = resourceTypeOf (expressionField props)
      in case fetchedResourcesList of
           None \<Rightarrow> Inr ([], None)
         | Some fetched \<Rightarrow>
             (case (if expressionValue props = '''' then
                      (case map_of (collection fetched) (js_key resourceType) of
                         None \<Rightarrow> Inl TypeError
                       | Some resources \<Rightarrow>
                           Inr [handleExpressionChangeDebounced
                                  (case resources of [] \<Rightarrow> None | r # _ \<Rightarrow> map_of r ''id'')
                                  (ruleId props) (conditionId props) (expressionId props)
                                  Value_kind False])
                    else Inr []) of
                Inl e \<Rightarrow> Inl e
              | Inr calls \<Rightarrow>
                  Inr (calls,
                    Some (if js_gt (totalResults fetched) (count fetched) then
                            ValueInputAutocompleteElement
                              \<lparr> conditionId = conditionId props,
                                expressionId = expressionId props,
                                expressionValue = expressionValue props,
                                ruleId = ruleId props,
                                resourceDetails = resourceDetailsState,
                                ac_valueReferenceAttribute = referenceAttribute,
                                ac_valueDisplayAttribute = displayAttribute,
                                resourceType = resourceType,
                                ac_initialResourcesLoadUrl = initialResourcesLoadUrl props,
                                ac_filterBaseResourcesUrl = filterBaseResourcesUrl props \<rparr>
                          else
                            ResourceSelect (truthy readonly) props
                              (case map_of (collection fetched) (js_key resourceType) of
                                 None \<Rightarrow> []
                               | Some resources \<Rightarrow>
                                   map (\<lambda>r. (map_of r referenceAttribute, map_of r displayAttribute))
                                     resources)))))"

text \<open>
  The effect that follows the resource-detail lookup (\<^verbatim>\<open>isLoading\<close>, \<^verbatim>\<open>error\<close> and
  \<^verbatim>\<open>data\<close> of the fetch).
\<close>

definition resourceDetailsEffect :: "bool \<Rightarrow> 'e option \<Rightarrow> ResourceInterface option \<Rightarrow> action list" where
  "resourceDetailsEffect isResourceDetailsLoading resourceDetailsError resourcesDetails =
     (if \<not> isResourceDetailsLoading then
        (if resourceDetailsError \<noteq> None then [setIsResourceMissing True, setResourceDetails None]
         else [setResourceDetails resourcesDetails])
      else [])"

fun resource_element_onChange :: "resource_element \<Rightarrow> string \<Rightarrow> action list" where
  "resource_element_onChange (ResourceSelect disabled props items) v =
     [Call (updateConditionExpression (Some v) (ruleId props) (conditionId props) (expressionId props)
        Value_kind True)]"
| "resource_element_onChange (ValueInputAutocompleteElement props) v = []"

subsection \<open>ValueInputAutocomplete\<close>

text \<open>
  \<open>t\<close> is the translation function. \<open>filteredResources\<close> is the data of the filter fetch;
  while there is none the component reads the default \<^verbatim>\<open>[]\<close>, whose \<^verbatim>\<open>totalResults\<close> and
  \<^verbatim>\<open>count\<close> are \<^verbatim>\<open>undefined\<close>. \<open>options\<close> is the local state of that name.
\<close>

definition hasMoreItems :: "ResourceCollection option \<Rightarrow> bool" where
  "hasMoreItems filteredResources =
     js_gt (Option.bind filteredResources totalResults) (Option.bind filteredResources count)"

definition moreItemsOption :: "(string \<Rightarrow> string) \<Rightarrow> ValueInputAutocompleteOptionsInterface" where
  "moreItemsOption t =
     \<lparr> option_id = Some ''more-items'',
       option_label = Some (t ''rules:fields.autocomplete.moreItemsMessage''),
       isDisabled = Some True \<rparr>"

definition autocompleteOptions ::
  "(string \<Rightarrow> string) \<Rightarrow> ResourceCollection option \<Rightarrow> ValueInputAutocompleteOptionsInterface list
     \<Rightarrow> ValueInputAutocompleteOptionsInterface list" where
  "autocompleteOptions t filteredResources options =
     (if hasMoreItems filteredResources then options @ [moreItemsOption t] else options)"

text \<open>
  The \<^verbatim>\<open>onChange\<close> handler of the autocomplete; the chosen entry is \<open>None\<close> when the
  selection is cleared (\<^verbatim>\<open>null\<close>).
\<close>

definition autocomplete_onChange ::
  "ValueInputAutocompleteProps \<Rightarrow> ValueInputAutocompleteOptionsInterface option \<Rightarrow> action list" where
  "autocomplete_onChange props chosen =
     (case chosen of
        None \<Rightarrow> []
      | Some v \<Rightarrow>
          if truthy (isDisabled v) then []
          else [handleExpressionChangeDebounced (option_id v) (ruleId props) (conditionId props)
                  (expressionId props) Value_kind True])"

subsection \<open>RuleExpression\<close>

text \<open>\<open>isResourceMissing\<close> is the local state of that name.\<close>

definition RuleExpression ::
  "bool option \<Rightarrow> ConditionExpressionMetaInterface list \<Rightarrow> bool \<Rightarrow> RuleExpressionComponentProps
     \<Rightarrow> action list \<times> expression_row" where
  "RuleExpression readonly conditionExpressionsMeta isResourceMissing props =
     (let metaAgainst =
            find (\<lambda>expressionMeta.
                    map_option name (meta_field expressionMeta) = Some (expression_field (expression props)))
              conditionExpressionsMeta;
          input = ConditionValueInput readonly
            \<lparr> conditionId = re_conditionId props,
              expressionId = expression_id (expression props),
              expressionValue = expression_value (expression props),
              ruleId = re_ruleId props,
              metaValue = Option.bind metaAgainst meta_value,
              cvi_findMetaValuesAgainst = metaAgainst,
              cvi_expressionField = expression_field (expression props) \<rparr>
      in (fst input,
          \<lparr> row_props = props,
            alert = isResourceMissing,
            controls_disabled = truthy readonly,
            field_items = map meta_field conditionExpressionsMeta,
            operator_items = (case Option.bind metaAgainst operators of None \<Rightarrow> [] | Some ops \<Rightarrow> ops),
            value_input = snd input,
            remove_fab = (isConditionExpressionRemovable props \<and> \<not> truthy readonly) \<rparr>))"

text \<open>The handlers of a row.\<close>

definition fieldSelect_onChange :: "expression_row \<Rightarrow> string \<Rightarrow> action list" where
  "fieldSelect_onChange row v =
     [Call (updateConditionExpression (Some v) (re_ruleId (row_props row)) (re_conditionId (row_props row))
              (expression_id (expression (row_props row))) Field_kind True),
      Call (updateConditionExpression (Some '''') (re_ruleId (row_props row)) (re_conditionId (row_props row))
              (expression_id (expression (row_props row))) Value_kind True)]"

definition operatorSelect_onChange :: "expression_row \<Rightarrow> string \<Rightarrow> action list" where
  "operatorSelect_onChange row v =
     [Call (updateConditionExpression (Some v) (re_ruleId (row_props row)) (re_conditionId (row_props row))
              (expression_id (expression (row_props row))) Operator_kind True)]"

definition andButton_onClick :: "expression_row \<Rightarrow> action list" where
  "andButton_onClick row =
     [Call (addNewRuleConditionExpression (re_ruleId (row_props row)) (re_conditionId (row_props row)) And
              (Some (expression_id (expression (row_props row)))))]"

definition removeButton_onClick :: "expression_row \<Rightarrow> action list" where
  "removeButton_onClick row =
     [Call (removeRuleConditionExpression (re_ruleId (row_props row))
              (expression_id (expression (row_props row))))]"

subsection \<open>RuleConditions\<close>

text \<open>
  The tree renderer maps over the conditions of the rule. A condition renders to \<^verbatim>\<open>false\<close>
  (\<open>None\<close>: nothing) unless the rule's operator is OR; the rows are rendered only when the
  condition's operator is AND. The result is the list of children of the wrapping
  \<^verbatim>\<open>div\<close>, which is always there. The \<^verbatim>\<open>key\<close> props, and the prop \<^verbatim>\<open>index\<close> of a row
  that is only used as a key, are left out. Every row is rendered with its initial local
  state.
\<close>

definition renderCondition ::
  "bool option \<Rightarrow> ConditionExpressionMetaInterface list \<Rightarrow> RuleInterface \<Rightarrow> RuleConditionInterface
     \<Rightarrow> action list \<times> condition_fragment option" where
  "renderCondition readonly conditionExpressionsMeta ruleInstance condition =
     (if rule_condition ruleInstance = Or then
        (let rendered =
               (if condition_condition condition = And then
                  map (\<lambda>e. RuleExpression readonly conditionExpressionsMeta False
                         \<lparr> expression = e,
                           re_ruleId = rule_id ruleInstance,
                           re_conditionId = condition_id condition,
                           isConditionExpressionRemovable =
                             (length (expressions condition) > 1 \<or> length (rules ruleInstance) > 1) \<rparr>)
                    (expressions condition)
                else [])
         in (concat (map fst rendered),
             Some \<lparr> fragment_condition = condition,
                    rows = map snd rendered,
                    or_divider = (length (expressions condition) > 0) \<rparr>))
      else ([], None))"

definition RuleConditions ::
  "bool option \<Rightarrow> ConditionExpressionMetaInterface list \<Rightarrow> RuleInterface
     \<Rightarrow> action list \<times> condition_fragment option list" where
  "RuleConditions readonly conditionExpressionsMeta ruleInstance =
     (let rendered = map (renderCondition readonly conditionExpressionsMeta ruleInstance) (rules ruleInstance)
      in (concat (map fst rendered), map snd rendered))"

definition orButton_onClick :: "RuleInterface \<Rightarrow> condition_fragment \<Rightarrow> action list" where
  "orButton_onClick ruleInstance fragment =
     [Call (addNewRuleConditionExpression (rule_id ruleInstance) (condition_id (fragment_condition fragment))
              Or None)]"

text \<open>All the rows that a render of the tree shows.\<close>

definition rendered_rows :: "condition_fragment option list \<Rightarrow> expression_row list" where
  "rendered_rows children = concat (map rows (List.map_filter (\<lambda>c. c) children))"

subsection \<open>The debounced function and the order of calls\<close>

text \<open>
  Modelled from the spec: \<^verbatim>\<open>debounce\<close> is imported from lodash and is not part of the
  sources. \<^verbatim>\<open>handleExpressionChangeDebounced\<close> is \<^verbatim>\<open>debounce(f, 300)\<close> where \<open>f\<close> passes
  its arguments to \<^verbatim>\<open>updateConditionExpression\<close>. A call of a debounced function stores
  its arguments and its time; \<open>f\<close> runs with the arguments stored last once 300 time units
  have passed without a call of that function. Time is a natural number.

  The body of \<^verbatim>\<open>RuleConditions\<close> calls \<^verbatim>\<open>debounce\<close> on every render, without memoising
  the result: every render has a debounced function and a timer of its own, and the handlers,
  effects and render bodies of the rows capture the function of the render that made them.
  Renders are numbered. A runtime holds, for every render whose debounced function has a call
  pending, the time and the call stored last, in the order of these times, together with the
  calls that have reached the context so far.
\<close>

definition wait :: nat where
  "wait = 300"

record runtime =
  timers :: "(nat \<times> nat \<times> context_call) list"
  context_calls :: "context_call list"

definition initial_runtime :: runtime where
  "initial_runtime = \<lparr> timers = [], context_calls = [] \<rparr>"

text \<open>A pending entry (render, time of the last call, call) is due at time \<open>now\<close>.\<close>

definition due :: "nat \<Rightarrow> nat \<times> nat \<times> context_call \<Rightarrow> bool" where
  "due now tm = (fst (snd tm) + wait \<le> now)"

text \<open>The timers that are due at time \<open>now\<close> run, the earliest first.\<close>

definition timerExpired :: "nat \<Rightarrow> runtime \<Rightarrow> runtime" where
  "timerExpired now rt =
     \<lparr> timers = filter (\<lambda>tm. \<not> due now tm) (timers rt),
       context_calls = context_calls rt @ map (\<lambda>tm. snd (snd tm)) (filter (due now) (timers rt)) \<rparr>"

text \<open>
  One action at time \<open>now\<close>, made by code of render \<open>k\<close>. A call of the debounced function
  replaces what the function of render \<open>k\<close> had stored and leaves the functions of the other
  renders alone.
\<close>

fun perform :: "nat \<Rightarrow> nat \<Rightarrow> runtime \<Rightarrow> action \<Rightarrow> runtime" where
  "perform now k rt (Call c) = rt\<lparr> context_calls := context_calls rt @ [c] \<rparr>"
| "perform now k rt (handleExpressionChangeDebounced v r c e f u) =
     rt\<lparr> timers := filter (\<lambda>tm. fst tm \<noteq> k) (timers rt)
                       @ [(k, now, updateConditionExpression v r c e f u)] \<rparr>"
| "perform now k rt (setIsResourceMissing b) = rt"
| "perform now k rt (setResourceDetails d) = rt"
| "perform now k rt (setInputValueLabel l) = rt"
| "perform now k rt (setOpen b) = rt"

text \<open>
  One task of the event loop (a handler, an effect or a render body): its time, the render
  whose code it runs, and its actions. The timers that are due run first, then the actions
  of the task in order.
\<close>

definition task :: "runtime \<Rightarrow> nat \<times> nat \<times> action list \<Rightarrow> runtime" where
  "task rt ev = foldl (perform (fst ev) (fst (snd ev))) (timerExpired (fst ev) rt) (snd (snd ev))"

definition run :: "(nat \<times> nat \<times> action list) list \<Rightarrow> runtime" where
  "run evs = foldl task initial_runtime evs"

text \<open>The calls that have reached the context at time \<open>now\<close>, and once everything is quiet.\<close>

definition dispatched_at :: "nat \<Rightarrow> runtime \<Rightarrow> context_call list" where
  "dispatched_at now rt = context_calls (timerExpired now rt)"

definition dispatched_finally :: "runtime \<Rightarrow> context_call list" where
  "dispatched_finally rt = context_calls rt @ map (\<lambda>tm. snd (snd tm)) (timers rt)"

text \<open>
  The arguments of one call of \<^verbatim>\<open>handleExpressionChangeDebounced\<close>: the changed value, the
  ids of the rule, the condition and the expression, the kind of field and
  \<^verbatim>\<open>isUserOnChange\<close>. \<open>call_debounced\<close> is the call, \<open>debounced_body\<close> what the function
  given to \<^verbatim>\<open>debounce\<close> does with the arguments. \<open>debounced_calls k cs\<close> are the tasks of
  code of render \<open>k\<close> that make the calls \<open>cs\<close>, each at its time.
\<close>

type_synonym debounced_args = "string option \<times> string \<times> string \<times> string \<times> ExpressionFieldTypes \<times> bool"

definition call_debounced :: "debounced_args \<Rightarrow> action" where
  "call_debounced a = (case a of (v, r, c, e, f, u) \<Rightarrow> handleExpressionChangeDebounced v r c e f u)"

definition debounced_body :: "debounced_args \<Rightarrow> context_call" where
  "debounced_body a = (case a of (v, r, c, e, f, u) \<Rightarrow> updateConditionExpression v r c e f u)"

definition debounced_calls :: "nat \<Rightarrow> (nat \<times> debounced_args) list \<Rightarrow> (nat \<times> nat \<times> action list) list" where
  "debounced_calls k cs = map (\<lambda>c. (fst c, k, [call_debounced (snd c)])) cs"

text \<open>The calls that the body of a render has made: none when it raised an error.\<close>

definition calls_of :: "js_error + (action list \<times> 'a) \<Rightarrow> action list" where
  "calls_of result = (case result of Inl e \<Rightarrow> [] | Inr (calls, el) \<Rightarrow> calls)"

text \<open>
  Times that follow each other by less than the wait: each call falls into the window that
  the call before it opened.
\<close>

fun within_window :: "nat list \<Rightarrow> bool" where
  "within_window (t1 # t2 # ts) = (t1 \<le> t2 \<and> t2 < t1 + wait \<and> within_window (t2 # ts))"
| "within_window _ = True"

subsection \<open>Concrete inputs\<close>

text \<open>
  Field metadata with one field of each value shape: a resource reference
  (\<open>application\<close>), a fixed list with three options (\<open>grantType\<close>) and free text
  (\<open>clientName\<close>).
\<close>

definition example_meta :: "ConditionExpressionMetaInterface list" where
  "example_meta =
     [ \<lparr> meta_field = Some \<lparr> name = ''application'', displayName = ''Application'' \<rparr>,
         operators = Some [\<lparr> name = ''equals'', displayName = ''equals'' \<rparr>],
         meta_value = Some
           \<lparr> inputType = ''options'', meta_values = None,
             links = Some [ \<lparr> href = ''/applications?offset=0&limit=10'', rel = ''values'' \<rparr>,
                            \<lparr> href = ''/applications?filter=&limit=10'', rel = ''filter'' \<rparr> ],
             valueReferenceAttribute = Some ''id'', valueDisplayAttribute = Some ''name'' \<rparr> \<rparr>,
       \<lparr> meta_field = Some \<lparr> name = ''grantType'', displayName = ''Grant Type'' \<rparr>,
         operators = Some [\<lparr> name = ''equals'', displayName = ''equals'' \<rparr>],
         meta_value = Some
           \<lparr> inputType = ''options'',
             meta_values = Some [ \<lparr> name = ''authorization_code'', displayName = ''authorization code'' \<rparr>,
                                  \<lparr> name = ''password'', displayName = ''password'' \<rparr>,
                                  \<lparr> name = ''refresh_token'', displayName = ''refresh token'' \<rparr> ],
             links = None, valueReferenceAttribute = None, valueDisplayAttribute = None \<rparr> \<rparr>,
       \<lparr> meta_field = Some \<lparr> name = ''clientName'', displayName = ''Client Name'' \<rparr>,
         operators = Some [\<lparr> name = ''equals'', displayName = ''equals'' \<rparr>],
         meta_value = Some
           \<lparr> inputType = ''input'', meta_values = None, links = None,
             valueReferenceAttribute = None, valueDisplayAttribute = None \<rparr> \<rparr> ]"

text \<open>An OR rule with two AND conditions of one free-text expression each.\<close>

definition text_rule :: RuleInterface where
  "text_rule =
     \<lparr> rule_id = ''r1'', rule_condition = Or,
       rules =
         [ \<lparr> condition_id = ''c1'', condition_condition = And,
             expressions = [ \<lparr> expression_id = ''e1'', expression_field = ''clientName'',
                               expression_operator = ''equals'', expression_value = ''x'' \<rparr> ] \<rparr>,
           \<lparr> condition_id = ''c2'', condition_condition = And,
             expressions = [ \<lparr> expression_id = ''e2'', expression_field = ''clientName'',
                               expression_operator = ''equals'', expression_value = ''y'' \<rparr> ] \<rparr> ] \<rparr>"

text \<open>An OR rule with one AND condition of one expression.\<close>

definition single_rule :: RuleInterface where
  "single_rule =
     \<lparr> rule_id = ''r2'', rule_condition = Or,
       rules =
         [ \<lparr> condition_id = ''c1'', condition_condition = And,
             expressions = [ \<lparr> expression_id = ''e1'', expression_field = ''clientName'',
                               expression_operator = ''equals'', expression_value = ''x'' \<rparr> ] \<rparr> ] \<rparr>"

text \<open>
  An OR rule with one AND condition of two expressions over the fixed list, both with an
  empty value.
\<close>

definition options_rule :: RuleInterface where
  "options_rule =
     \<lparr> rule_id = ''r3'', rule_condition = Or,
       rules =
         [ \<lparr> condition_id = ''c1'', condition_condition = And,
             expressions = [ \<lparr> expression_id = ''e1'', expression_field = ''grantType'',
                               expression_operator = ''equals'', expression_value = '''' \<rparr>,
                             \<lparr> expression_id = ''e2'', expression_field = ''grantType'',
                               expression_operator = ''equals'', expression_value = '''' \<rparr> ] \<rparr> ] \<rparr>"

text \<open>The same conditions as \<^const>\<open>options_rule\<close> under an AND root.\<close>

definition and_rule :: RuleInterface where
  "and_rule = options_rule \<lparr> rule_id := ''r4'', rule_condition := And \<rparr>"

text \<open>
  The props of a resource list over a field other than \<open>application\<close>, with an empty value,
  and a fetched page of that field's resources.
\<close>

definition role_props :: ResourceListSelectProps where
  "role_props =
     \<lparr> conditionId = ''c1'', expressionId = ''e1'', expressionValue = '''', ruleId = ''r1'',
       expressionField = ''role'',
       filterBaseResourcesUrl = ''/roles?filter=&limit=10'',
       findMetaValuesAgainst = None,
       initialResourcesLoadUrl = ''/roles?offset=0&limit=10'' \<rparr>"

definition role_page :: ResourceCollection where
  "role_page =
     \<lparr> collection = [(''roles'', [[(''id'', ''42''), (''name'', ''admin'')]])],
       totalResults = Some 12, count = Some 1 \<rparr>"

definition application_props :: ResourceListSelectProps where
  "application_props =
     \<lparr> conditionId = ''c1'', expressionId = ''e1'', expressionValue = ''7'', ruleId = ''r1'',
       expressionField = ''application'',
       filterBaseResourcesUrl = ''/applications?filter=&limit=10'',
       findMetaValuesAgainst = None,
       initialResourcesLoadUrl = ''/applications?offset=0&limit=10'' \<rparr>"

definition application_page :: ResourceCollection where
  "application_page =
     \<lparr> collection = [(''applications'', [[(''id'', ''7''), (''name'', ''portal'')]])],
       totalResults = Some 12, count = Some 1 \<rparr>"

text \<open>The props of the text field of an expression \<open>e\<close> in condition \<open>c\<close> of rule \<open>r\<close>.\<close>

definition text_props :: "string \<Rightarrow> string \<Rightarrow> string \<Rightarrow> ConditionValueInputProps" where
  "text_props r c e =
     \<lparr> conditionId = c, expressionId = e, expressionValue = '''', ruleId = r,
       metaValue = Some \<lparr> inputType = ''input'', meta_values = None, links = None,
                          valueReferenceAttribute = None, valueDisplayAttribute = None \<rparr>,
       cvi_findMetaValuesAgainst = None,
       cvi_expressionField = ''clientName'' \<rparr>"

text \<open>The props that \<^const>\<open>application_props\<close> hands to the autocomplete.\<close>

definition application_autocomplete :: ValueInputAutocompleteProps where
  "application_autocomplete =
     \<lparr> conditionId = ''c1'', expressionId = ''e1'', expressionValue = ''7'', ruleId = ''r1'',
       resourceDetails = Some [(''id'', ''7''), (''name'', ''portal'')],
       ac_valueReferenceAttribute = ''id'',
       ac_valueDisplayAttribute = ''name'',
       resourceType = Some ''applications'',
       ac_initialResourcesLoadUrl = ''/applications?offset=0&limit=10'',
       ac_filterBaseResourcesUrl = ''/applications?filter=&limit=10'' \<rparr>"

section \<open>Properties of the aggregator\<close>


















section \<open>Properties of the tree renderer\<close>

lemma renderCondition_rows:
  "snd (renderCondition readonly metas r c) = Some frag \<Longrightarrow> row \<in> set (rows frag) \<Longrightarrow>
   remove_fab row = ((length (expressions c) > 1 \<or> length (rules r) > 1) \<and> \<not> truthy readonly)
   \<and> re_ruleId (row_props row) = rule_id r
   \<and> re_conditionId (row_props row) = condition_id c
   \<and> expression (row_props row) \<in> set (expressions c)"
  by (auto simp: renderCondition_def RuleExpression_def Let_def split: if_splits)

lemma RuleConditions_nth:
  "i < length (rules r) \<Longrightarrow>
   snd (RuleConditions readonly metas r) ! i = snd (renderCondition readonly metas r (rules r ! i))"
  by (simp add: RuleConditions_def Let_def)

lemma rendered_rows_mem:
  "row \<in> set (rendered_rows children) \<longleftrightarrow> (\<exists>frag. Some frag \<in> set children \<and> row \<in> set (rows frag))"
proof (induction children)
  case Nil
  then show ?case by (simp add: rendered_rows_def List.map_filter_def)
next
  case (Cons child children)
  then show ?case
    by (cases child) (auto simp: rendered_rows_def List.map_filter_def)
qed

lemma RuleConditions_children:
  "snd (RuleConditions readonly metas r) = map (\<lambda>c. snd (renderCondition readonly metas r c)) (rules r)"
  by (simp add: RuleConditions_def Let_def)

lemma rendered_rows_iff:
  "row \<in> set (rendered_rows (snd (RuleConditions readonly metas r))) \<longleftrightarrow>
   (\<exists>c \<in> set (rules r). \<exists>frag. snd (renderCondition readonly metas r c) = Some frag \<and> row \<in> set (rows frag))"
proof
  assume "row \<in> set (rendered_rows (snd (RuleConditions readonly metas r)))"
  then obtain frag where frag: "Some frag \<in> set (snd (RuleConditions readonly metas r))"
    and row: "row \<in> set (rows frag)"
    by (auto simp: rendered_rows_mem)
  from frag obtain c where "c \<in> set (rules r)" "snd (renderCondition readonly metas r c) = Some frag"
    by (auto simp: RuleConditions_children)
  with row show "\<exists>c \<in> set (rules r). \<exists>frag. snd (renderCondition readonly metas r c) = Some frag \<and> row \<in> set (rows frag)"
    by blast
next
  assume "\<exists>c \<in> set (rules r). \<exists>frag. snd (renderCondition readonly metas r c) = Some frag \<and> row \<in> set (rows frag)"
  then obtain c frag where c: "c \<in> set (rules r)"
    and f: "snd (renderCondition readonly metas r c) = Some frag" "row \<in> set (rows frag)"
    by blast
  from c f(1) have "Some frag \<in> set (snd (RuleConditions readonly metas r))"
    by (force simp: RuleConditions_children)
  with f(2) show "row \<in> set (rendered_rows (snd (RuleConditions readonly metas r)))"
    by (auto simp: rendered_rows_mem)
qed

text \<open>
  C2, as amended. When the component is not read-only, the remove control of a rendered
  expression is present if and only if the owning condition has more than one expression or
  the rule has more than one condition.
\<close>

theorem remove_affordance_when_editable:
  assumes "\<not> truthy readonly"
    and "i < length (rules r)"
    and "snd (RuleConditions readonly metas r) ! i = Some frag"
    and "row \<in> set (rows frag)"
  shows "remove_fab row \<longleftrightarrow> length (expressions (rules r ! i)) > 1 \<or> length (rules r) > 1"
  using assms renderCondition_rows [of readonly metas r "rules r ! i" frag row]
  by (simp add: RuleConditions_nth)

theorem remove_affordance_when_editable_witness:
  "\<not> truthy None \<and> (0::nat) < length (rules text_rule)
   \<and> map (map_option (\<lambda>frag. map remove_fab (rows frag))) (snd (RuleConditions None example_meta text_rule))
       = [Some [True], Some [True]]
   \<and> map (map_option (\<lambda>frag. map remove_fab (rows frag))) (snd (RuleConditions None example_meta single_rule))
       = [Some [False]]"
proof -
  let ?frag = "the (snd (RuleConditions None example_meta text_rule) ! 0)"
  have 1: "snd (RuleConditions None example_meta text_rule) ! 0 = Some ?frag"
    by (simp add: RuleConditions_def renderCondition_def text_rule_def Let_def)
  have 2: "hd (rows ?frag) \<in> set (rows ?frag)"
    by (simp add: RuleConditions_def renderCondition_def text_rule_def Let_def)
  have "remove_fab (hd (rows ?frag))"
    using remove_affordance_when_editable
      [where readonly = None and r = text_rule and metas = example_meta and i = 0 and frag = ?frag
         and row = "hd (rows ?frag)"] 1 2
    by (simp add: text_rule_def)
  then show ?thesis
    by (simp add: RuleConditions_def renderCondition_def RuleExpression_def text_rule_def
        single_rule_def Let_def)
qed

text \<open>
  C2, as stated, fails under the read-only flag: the rule has two conditions of one
  expression each, and no rendered expression has the remove control.
\<close>

theorem remove_affordance_counterexample:
  "length (rules text_rule) = 2
   \<and> map remove_fab (rendered_rows (snd (RuleConditions (Some True) example_meta text_rule))) = [False, False]"
  by (simp add: RuleConditions_def renderCondition_def RuleExpression_def rendered_rows_def
      List.map_filter_def text_rule_def Let_def)

text \<open>
  C10. When the component is rendered with the read-only flag set, no rendered expression
  has the remove control, whatever the numbers of expressions and conditions are.
\<close>

theorem readonly_hides_remove:
  assumes "truthy readonly"
    and "row \<in> set (rendered_rows (snd (RuleConditions readonly metas r)))"
  shows "\<not> remove_fab row"
  using assms renderCondition_rows [of readonly metas r _ _ row]
  by (auto simp: rendered_rows_iff)

theorem readonly_hides_remove_witness:
  "truthy (Some True)
   \<and> length (rendered_rows (snd (RuleConditions (Some True) example_meta options_rule))) = 2
   \<and> length (expressions (hd (rules options_rule))) = 2
   \<and> \<not> remove_fab (hd (rendered_rows (snd (RuleConditions (Some True) example_meta options_rule))))"
proof -
  let ?rows = "rendered_rows (snd (RuleConditions (Some True) example_meta options_rule))"
  have len: "length ?rows = 2"
    by (simp add: RuleConditions_def renderCondition_def rendered_rows_def
        List.map_filter_def options_rule_def Let_def)
  then have "hd ?rows \<in> set ?rows"
    by (cases ?rows) auto
  then have "\<not> remove_fab (hd ?rows)"
    using readonly_hides_remove
      [where readonly = "Some True" and row = "hd ?rows" and metas = example_meta and r = options_rule] by simp
  with len show ?thesis
    by (simp add: options_rule_def)
qed

text \<open>
  C4. For a rule whose outer operator is not OR every condition renders to nothing, so the
  render shows no row and no divider, and the body of the render calls neither the context
  nor the debounced function.
\<close>

theorem non_or_rule_renders_nothing:
  assumes "rule_condition r \<noteq> Or"
  shows "RuleConditions readonly metas r = ([], replicate (length (rules r)) None)
         \<and> List.map_filter (\<lambda>c. c) (snd (RuleConditions readonly metas r)) = []
         \<and> rendered_rows (snd (RuleConditions readonly metas r)) = []
         \<and> run [(now, k, fst (RuleConditions readonly metas r))] = initial_runtime"
proof -
  have "map (renderCondition readonly metas r) cs = replicate (length cs) ([], None)" for cs
    using assms by (induction cs) (simp_all add: renderCondition_def)
  then have "RuleConditions readonly metas r = ([], replicate (length (rules r)) None)"
    by (simp add: RuleConditions_def Let_def)
  then show ?thesis
    by (simp add: rendered_rows_def List.map_filter_def run_def task_def timerExpired_def
        initial_runtime_def)
qed

theorem non_or_rule_renders_nothing_witness:
  "rule_condition and_rule \<noteq> Or
   \<and> length (rules and_rule) = 1
   \<and> RuleConditions None example_meta and_rule = ([], [None])
   \<and> fst (RuleConditions None example_meta options_rule) \<noteq> []"
proof -
  have "rule_condition and_rule \<noteq> Or"
    by (simp add: and_rule_def)
  from non_or_rule_renders_nothing [OF this, where readonly = None and metas = example_meta and now = 0 and k = 0] show ?thesis
    by (simp add: and_rule_def options_rule_def RuleConditions_def renderCondition_def
        RuleExpression_def ConditionValueInput_def example_meta_def Let_def)
qed

text \<open>
  C3. The handler of the field dropdown of a row calls \<^verbatim>\<open>updateConditionExpression\<close> twice
  for the row's expression: first with the selected field, then with the empty string for
  the value, whatever the value was. Both calls reach the context at once, in this order,
  within the one task of the handler; neither goes through the debounced function.
\<close>

theorem field_change_clears_value:
  "fieldSelect_onChange (snd (RuleExpression readonly metas missing props)) v =
     [Call (updateConditionExpression (Some v) (re_ruleId props) (re_conditionId props)
              (expression_id (expression props)) Field_kind True),
      Call (updateConditionExpression (Some '''') (re_ruleId props) (re_conditionId props)
              (expression_id (expression props)) Value_kind True)]
   \<and> context_calls (task rt (now, k, fieldSelect_onChange (snd (RuleExpression readonly metas missing props)) v)) =
       context_calls (timerExpired now rt) @
       [updateConditionExpression (Some v) (re_ruleId props) (re_conditionId props)
          (expression_id (expression props)) Field_kind True,
        updateConditionExpression (Some '''') (re_ruleId props) (re_conditionId props)
          (expression_id (expression props)) Value_kind True]
   \<and> timers (task rt (now, k, fieldSelect_onChange (snd (RuleExpression readonly metas missing props)) v)) =
       timers (timerExpired now rt)"
  by (simp add: fieldSelect_onChange_def RuleExpression_def Let_def task_def)

section \<open>Properties of the debounced function\<close>

lemma task_call_idle:
  "timers rt = [] \<Longrightarrow>
   task rt (t, k, [call_debounced a]) = rt\<lparr> timers := [(k, t, debounced_body a)] \<rparr>"
  by (cases rt; cases a) (simp add: task_def timerExpired_def call_debounced_def debounced_body_def)

lemma task_call_pending:
  "timers rt = [(k, t0, c0)] \<Longrightarrow> t < t0 + wait \<Longrightarrow>
   task rt (t, k, [call_debounced a]) = rt\<lparr> timers := [(k, t, debounced_body a)] \<rparr>"
  by (cases rt; cases a)
    (simp add: task_def timerExpired_def due_def call_debounced_def debounced_body_def)

lemma calls_in_window:
  "timers rt = [(k, t0, c0)] \<Longrightarrow> within_window (t0 # map fst cs) \<Longrightarrow>
   foldl task rt (debounced_calls k cs) =
     rt\<lparr> timers := [(k, last ((t0, c0) # map (\<lambda>c. (fst c, debounced_body (snd c))) cs))] \<rparr>"
proof (induction cs arbitrary: rt t0 c0)
  case Nil
  then show ?case by (simp add: debounced_calls_def)
next
  case (Cons c cs)
  from Cons.prems have near: "fst c < t0 + wait" and rest: "within_window (fst c # map fst cs)"
    by simp_all
  let ?rt = "rt\<lparr> timers := [(k, fst c, debounced_body (snd c))] \<rparr>"
  have step: "task rt (fst c, k, [call_debounced (snd c)]) = ?rt"
    using Cons.prems(1) near by (rule task_call_pending)
  have "timers ?rt = [(k, fst c, debounced_body (snd c))]"
    by simp
  from Cons.IH [OF this rest] step show ?case
    by (simp add: debounced_calls_def)
qed

lemma run_calls:
  assumes "cs \<noteq> []" and "within_window (map fst cs)"
  shows "run (debounced_calls k cs) =
           \<lparr> timers = [(k, fst (last cs), debounced_body (snd (last cs)))], context_calls = [] \<rparr>"
proof -
  from assms(1) obtain c cs' where cs: "cs = c # cs'"
    by (cases cs) auto
  let ?rt = "initial_runtime\<lparr> timers := [(k, fst c, debounced_body (snd c))] \<rparr>"
  have first: "task initial_runtime (fst c, k, [call_debounced (snd c)]) = ?rt"
    by (rule task_call_idle) (simp add: initial_runtime_def)
  have "timers ?rt = [(k, fst c, debounced_body (snd c))]"
    by simp
  moreover have "within_window (fst c # map fst cs')"
    using assms(2) cs by simp
  ultimately have "foldl task ?rt (debounced_calls k cs') =
      ?rt\<lparr> timers := [(k, last ((fst c, debounced_body (snd c))
                              # map (\<lambda>c. (fst c, debounced_body (snd c))) cs'))] \<rparr>"
    by (rule calls_in_window)
  moreover have "last ((fst c, debounced_body (snd c)) # map (\<lambda>c. (fst c, debounced_body (snd c))) cs')
      = (fst (last cs), debounced_body (snd (last cs)))"
    using cs by (simp add: last_map)
  ultimately show ?thesis
    using first cs by (simp add: run_def initial_runtime_def debounced_calls_def)
qed

text \<open>
  The window does not reach across a re-render: two edits of one text field that are 100 time
  units apart, the second one handled by the handler of a later render, both reach the
  context.
\<close>

lemma edits_across_renders_both_dispatched:
  "dispatched_finally (run
     [(0, 0, value_element_onChange (TextField False (text_props ''r1'' ''c1'' ''e1'')) ''a''),
      (100, 1, value_element_onChange (TextField False (text_props ''r1'' ''c1'' ''e1'')) ''ab'')])
   = [updateConditionExpression (Some ''a'') ''r1'' ''c1'' ''e1'' Value_kind True,
      updateConditionExpression (Some ''ab'') ''r1'' ''c1'' ''e1'' Value_kind True]"
  by (simp add: run_def task_def timerExpired_def due_def initial_runtime_def dispatched_finally_def
      wait_def text_props_def)

text \<open>
  C1, as amended. Every render of the component has one debounced function, which serves all
  the expressions of the rule. Starting with no call pending, when calls of the debounced
  function of one render follow each other by less than 300 time units, whichever
  expressions and handlers they come from, exactly one call reaches
  \<^verbatim>\<open>updateConditionExpression\<close>: the one with the arguments of the last call, 300 time units
  after it, and none before. An edit of a free-text field and the choice of an enabled entry
  of the autocomplete are such calls. Typing three times within 300 time units into one
  field, with no re-render in between, is an instance.
\<close>

theorem debounced_calls_dispatch_last:
  assumes "cs \<noteq> []" and "within_window (map fst cs)"
  shows "dispatched_finally (run (debounced_calls k cs)) = [debounced_body (snd (last cs))]
         \<and> dispatched_at t (run (debounced_calls k cs)) =
             (if fst (last cs) + wait \<le> t then [debounced_body (snd (last cs))] else [])
         \<and> value_element_onChange (TextField disabled props) v =
             [call_debounced (Some v, ruleId props, conditionId props, expressionId props, Value_kind, True)]
         \<and> autocomplete_onChange aprops (Some (entry\<lparr> isDisabled := None \<rparr>)) =
             [call_debounced (option_id entry, ruleId aprops, conditionId aprops, expressionId aprops,
                Value_kind, True)]"
  using run_calls [OF assms, of k]
  by (simp add: dispatched_finally_def dispatched_at_def timerExpired_def due_def call_debounced_def
      autocomplete_onChange_def)

theorem debounced_calls_dispatch_last_witness:
  "within_window [0, 100, 200]
   \<and> dispatched_finally (run
        [(0, 0, value_element_onChange (TextField False (text_props ''r1'' ''c1'' ''e1'')) ''a''),
         (100, 0, value_element_onChange (TextField False (text_props ''r1'' ''c1'' ''e1'')) ''ab''),
         (200, 0, value_element_onChange (TextField False (text_props ''r1'' ''c1'' ''e1'')) ''abc'')])
       = [updateConditionExpression (Some ''abc'') ''r1'' ''c1'' ''e1'' Value_kind True]
   \<and> dispatched_at 499 (run
        [(0, 0, value_element_onChange (TextField False (text_props ''r1'' ''c1'' ''e1'')) ''a''),
         (100, 0, value_element_onChange (TextField False (text_props ''r1'' ''c1'' ''e1'')) ''ab''),
         (200, 0, value_element_onChange (TextField False (text_props ''r1'' ''c1'' ''e1'')) ''abc'')])
       = []"
proof -
  let ?cs = "[(0, (Some ''a'', ''r1'', ''c1'', ''e1'', Value_kind, True)),
              (100, (Some ''ab'', ''r1'', ''c1'', ''e1'', Value_kind, True)),
              (200, (Some ''abc'', ''r1'', ''c1'', ''e1'', Value_kind, True))]
             :: (nat \<times> debounced_args) list"
  have tasks: "debounced_calls 0 ?cs =
      [(0, 0, value_element_onChange (TextField False (text_props ''r1'' ''c1'' ''e1'')) ''a''),
       (100, 0, value_element_onChange (TextField False (text_props ''r1'' ''c1'' ''e1'')) ''ab''),
       (200, 0, value_element_onChange (TextField False (text_props ''r1'' ''c1'' ''e1'')) ''abc'')]"
    by (simp add: debounced_calls_def call_debounced_def text_props_def)
  have nonempty: "?cs \<noteq> []" by simp
  have window: "within_window (map fst ?cs)" by (simp add: wait_def)
  note last = debounced_calls_dispatch_last [OF nonempty window, where k = 0 and t = 499]
  have a: "dispatched_finally (run (debounced_calls 0 ?cs)) =
      [updateConditionExpression (Some ''abc'') ''r1'' ''c1'' ''e1'' Value_kind True]"
    using last [THEN conjunct1] by (simp add: debounced_body_def)
  have b: "dispatched_at 499 (run (debounced_calls 0 ?cs)) = []"
    using last [THEN conjunct2, THEN conjunct1] by (simp add: wait_def)
  have c: "within_window [0, 100, 200]"
    by (simp add: wait_def)
  from a b c show ?thesis
    unfolding tasks by (intro conjI)
qed

text \<open>
  C1, as stated, fails: within one render, an edit of expression \<open>e1\<close> at time 0 followed by
  an edit of expression \<open>e2\<close> at time 100 leaves one call, the one for \<open>e2\<close>; the edit of
  \<open>e1\<close> never reaches the context.
\<close>

theorem debounce_per_expression_counterexample:
  "dispatched_finally (run
     [(0, 0, value_element_onChange
            (value_input (rendered_rows (snd (RuleConditions None example_meta text_rule)) ! 0)) ''a''),
      (100, 0, value_element_onChange
            (value_input (rendered_rows (snd (RuleConditions None example_meta text_rule)) ! 1)) ''b'')])
   = [updateConditionExpression (Some ''b'') ''r1'' ''c2'' ''e2'' Value_kind True]"
  by (simp add: RuleConditions_def renderCondition_def RuleExpression_def ConditionValueInput_def
      rendered_rows_def List.map_filter_def text_rule_def example_meta_def Let_def
      run_def task_def timerExpired_def due_def initial_runtime_def dispatched_finally_def wait_def)

section \<open>Properties of the value input resolver\<close>

text \<open>
  C5, as amended. For a fixed list with more than one option and an empty value, the body of
  the render of the value input calls the debounced function, once, with the name of the first
  option, the value kind and the flag \<^verbatim>\<open>isUserOnChange\<close> false. When this is the only call
  of the debounced function, the call to \<^verbatim>\<open>updateConditionExpression\<close> follows 300 time
  units after the render, and not before.
\<close>

theorem options_auto_select_debounced:
  assumes "metaValue props = Some mv"
    and "inputType mv = ''options''"
    and "meta_values mv = Some vs"
    and "length vs > 1"
    and "expressionValue props = ''''"
  shows "fst (ConditionValueInput readonly props) =
           [handleExpressionChangeDebounced (Some (name (hd vs))) (ruleId props) (conditionId props)
              (expressionId props) Value_kind False]
         \<and> dispatched_at t (run [(now, k, fst (ConditionValueInput readonly props))]) =
             (if now + wait \<le> t then
                [updateConditionExpression (Some (name (hd vs))) (ruleId props) (conditionId props)
                   (expressionId props) Value_kind False]
              else [])
         \<and> dispatched_finally (run [(now, k, fst (ConditionValueInput readonly props))]) =
             [updateConditionExpression (Some (name (hd vs))) (ruleId props) (conditionId props)
                (expressionId props) Value_kind False]"
proof -
  have calls: "fst (ConditionValueInput readonly props) =
      [handleExpressionChangeDebounced (Some (name (hd vs))) (ruleId props) (conditionId props)
         (expressionId props) Value_kind False]"
    using assms by (simp add: ConditionValueInput_def)
  show ?thesis
    unfolding calls
    by (simp add: run_def task_def timerExpired_def due_def initial_runtime_def dispatched_at_def
        dispatched_finally_def)
qed

theorem options_auto_select_debounced_witness:
  "fst (ConditionValueInput None
          (text_props ''r3'' ''c1'' ''e1''
             \<lparr> metaValue := meta_value (example_meta ! 1) \<rparr>)) =
     [handleExpressionChangeDebounced (Some ''authorization_code'') ''r3'' ''c1'' ''e1'' Value_kind False]
   \<and> dispatched_at 299 (run [(0, 0, fst (ConditionValueInput None
          (text_props ''r3'' ''c1'' ''e1'' \<lparr> metaValue := meta_value (example_meta ! 1) \<rparr>)))]) = []
   \<and> dispatched_at 300 (run [(0, 0, fst (ConditionValueInput None
          (text_props ''r3'' ''c1'' ''e1'' \<lparr> metaValue := meta_value (example_meta ! 1) \<rparr>)))]) =
       [updateConditionExpression (Some ''authorization_code'') ''r3'' ''c1'' ''e1'' Value_kind False]"
proof -
  let ?props = "text_props ''r3'' ''c1'' ''e1'' \<lparr> metaValue := meta_value (example_meta ! 1) \<rparr>"
  let ?mv = "the (meta_value (example_meta ! 1))"
  let ?vs = "the (meta_values ?mv)"
  have 1: "metaValue ?props = Some ?mv" by (simp add: example_meta_def)
  have 2: "inputType ?mv = ''options''" by (simp add: example_meta_def)
  have 3: "meta_values ?mv = Some ?vs" by (simp add: example_meta_def)
  have 4: "length ?vs > 1" by (simp add: example_meta_def)
  have 5: "expressionValue ?props = ''''" by (simp add: text_props_def)
  have 6: "name (hd ?vs) = ''authorization_code''" by (simp add: example_meta_def)
  have 7: "ruleId ?props = ''r3''" "conditionId ?props = ''c1''" "expressionId ?props = ''e1''"
    by (simp_all add: text_props_def)
  note at299 = options_auto_select_debounced [OF 1 2 3 4 5, where readonly = None and now = 0 and k = 0 and t = 299]
  note at300 = options_auto_select_debounced [OF 1 2 3 4 5, where readonly = None and now = 0 and k = 0 and t = 300]
  have a: "fst (ConditionValueInput None ?props) =
      [handleExpressionChangeDebounced (Some ''authorization_code'') ''r3'' ''c1'' ''e1'' Value_kind False]"
    using at299 [THEN conjunct1] by (simp only: 6 7)
  have b: "dispatched_at 299 (run [(0, 0, fst (ConditionValueInput None ?props))]) = []"
    using at299 [THEN conjunct2, THEN conjunct1] by (simp only: wait_def) simp
  have c: "dispatched_at 300 (run [(0, 0, fst (ConditionValueInput None ?props))]) =
      [updateConditionExpression (Some ''authorization_code'') ''r3'' ''c1'' ''e1'' Value_kind False]"
    using at300 [THEN conjunct2, THEN conjunct1] by (simp only: 6 7 wait_def) simp
  from a b c show ?thesis
    by (intro conjI)
qed

text \<open>
  C5, as stated, fails: the render of a rule with two such expressions calls the debounced
  function for \<open>e1\<close> and then for \<open>e2\<close>; nothing has reached the context when the render
  ends, and the only call that ever does is the one for \<open>e2\<close>.
\<close>

theorem options_auto_select_counterexample:
  "fst (RuleConditions None example_meta options_rule) =
     [handleExpressionChangeDebounced (Some ''authorization_code'') ''r3'' ''c1'' ''e1'' Value_kind False,
      handleExpressionChangeDebounced (Some ''authorization_code'') ''r3'' ''c1'' ''e2'' Value_kind False]
   \<and> dispatched_at 0 (run [(0, 0, fst (RuleConditions None example_meta options_rule))]) = []
   \<and> dispatched_finally (run [(0, 0, fst (RuleConditions None example_meta options_rule))]) =
       [updateConditionExpression (Some ''authorization_code'') ''r3'' ''c1'' ''e2'' Value_kind False]"
proof -
  have calls: "fst (RuleConditions None example_meta options_rule) =
     [handleExpressionChangeDebounced (Some ''authorization_code'') ''r3'' ''c1'' ''e1'' Value_kind False,
      handleExpressionChangeDebounced (Some ''authorization_code'') ''r3'' ''c1'' ''e2'' Value_kind False]"
    by (simp add: RuleConditions_def renderCondition_def RuleExpression_def ConditionValueInput_def
        options_rule_def example_meta_def Let_def)
  show ?thesis
    unfolding calls
    by (simp add: run_def task_def timerExpired_def due_def initial_runtime_def dispatched_at_def
        dispatched_finally_def wait_def)
qed

section \<open>Properties of the resource list\<close>

lemma ResourceListSelect_variant:
  "ResourceListSelect readonly props st (Some fetched) = Inr (calls, el) \<Longrightarrow>
   (js_gt (totalResults fetched) (count fetched) \<longrightarrow>
      (\<exists>ac. el = Some (ValueInputAutocompleteElement ac)
         \<and> ruleId ac = ruleId props \<and> conditionId ac = conditionId props
         \<and> expressionId ac = expressionId props))
   \<and> (\<not> js_gt (totalResults fetched) (count fetched) \<longrightarrow>
      el = Some (ResourceSelect (truthy readonly) props
        (case map_of (collection fetched) (js_key (resourceTypeOf (expressionField props))) of
           None \<Rightarrow> []
         | Some resources \<Rightarrow>
             map (\<lambda>r. (map_of r (or_default (Option.bind (Option.bind (findMetaValuesAgainst props) meta_value)
                                    valueReferenceAttribute) ''id''),
                        map_of r (or_default (Option.bind (Option.bind (findMetaValuesAgainst props) meta_value)
                                    valueDisplayAttribute) ''name'')))
               resources)))"
  by (auto simp: ResourceListSelect_def Let_def split: if_splits option.splits sum.splits)

lemma ResourceListSelect_returns:
  "expressionValue props \<noteq> '''' \<or> map_of (collection fetched) (js_key (resourceTypeOf (expressionField props))) \<noteq> None
   \<Longrightarrow> \<exists>calls el. ResourceListSelect readonly props st (Some fetched) = Inr (calls, Some el)"
  by (auto simp: ResourceListSelect_def Let_def split: if_splits option.splits sum.splits)

text \<open>
  C6 at a failing input. The field is a resource reference other than \<open>application\<close>, the
  value is empty (as it is after the field has been selected) and the fetched page has more
  results than it holds: the render raises a \<^verbatim>\<open>TypeError\<close> and shows neither variant. With
  a stored value, the same page renders the autocomplete.
\<close>

theorem resource_list_empty_value_raises:
  "ResourceListSelect None role_props None (Some role_page) = Inl TypeError
   \<and> js_gt (totalResults role_page) (count role_page)
   \<and> (\<exists>calls ac. ResourceListSelect None (role_props \<lparr> expressionValue := ''42'' \<rparr>) None (Some role_page)
         = Inr (calls, Some (ValueInputAutocompleteElement ac)))"
  by (simp add: ResourceListSelect_def resourceTypeOf_def role_props_def role_page_def Let_def)

text \<open>
  C7, as amended. When the resource-detail lookup has completed with an error, the effect sets
  the resource-missing flag to true and the local resource details to null, and does nothing
  else: no call reaches the context and no debounced function is called. A row whose flag is
  set shows the warning banner. For an expression with a non-empty stored value the render of
  the resource list raises no error and calls nothing either, so the stored value stays as it
  is until the user selects a replacement.
\<close>

theorem lookup_error_keeps_stored_value:
  "resourceDetailsEffect False (Some err) details = [setIsResourceMissing True, setResourceDetails None]
   \<and> task rt (now, k, resourceDetailsEffect False (Some err) details) = timerExpired now rt
   \<and> alert (snd (RuleExpression readonly metas True props)) = True
   \<and> (expressionValue rprops \<noteq> '''' \<longrightarrow>
        map_sum id fst (ResourceListSelect readonly rprops st fetched) = Inr []
        \<and> task rt (now, k, calls_of (ResourceListSelect readonly rprops st fetched)
                            @ resourceDetailsEffect False (Some err) details) = timerExpired now rt)"
  by (simp add: resourceDetailsEffect_def task_def RuleExpression_def ResourceListSelect_def Let_def
      calls_of_def split: option.splits)

theorem lookup_error_keeps_stored_value_witness:
  "expressionValue application_props \<noteq> ''''
   \<and> resourceDetailsUrl application_props = ''/applications/7''
   \<and> resourceDetailsEffect False (Some ()) None = [setIsResourceMissing True, setResourceDetails None]
   \<and> map_sum id fst (ResourceListSelect None application_props None (Some application_page)) = Inr []
   \<and> run [(0, 0, calls_of (ResourceListSelect None application_props None (Some application_page))
                  @ resourceDetailsEffect False (Some ()) None)] = initial_runtime"
proof -
  have stored: "expressionValue application_props \<noteq> ''''"
    by (simp add: application_props_def)
  have url: "resourceDetailsUrl application_props = ''/applications/7''"
    by (simp add: resourceDetailsUrl_def resourceTypeOf_def application_props_def)
  note kept = lookup_error_keeps_stored_value
    [where err = "()" and details = None and rt = initial_runtime and now = 0 and k = 0
       and readonly = None and rprops = application_props and st = None
       and fetched = "Some application_page"]
  have effect: "resourceDetailsEffect False (Some ()) None = [setIsResourceMissing True, setResourceDetails None]"
    using kept [THEN conjunct1] .
  have quiet: "map_sum id fst (ResourceListSelect None application_props None (Some application_page)) = Inr []"
    and cycle: "task initial_runtime
        (0, 0, calls_of (ResourceListSelect None application_props None (Some application_page))
                 @ resourceDetailsEffect False (Some ()) None) = timerExpired 0 initial_runtime"
    using kept [THEN conjunct2, THEN conjunct2, THEN conjunct2] stored by simp_all
  have "run [(0, 0, calls_of (ResourceListSelect None application_props None (Some application_page))
                     @ resourceDetailsEffect False (Some ()) None)] = initial_runtime"
    unfolding run_def using cycle by (simp add: timerExpired_def initial_runtime_def)
  with stored url effect quiet show ?thesis
    by (intro conjI)
qed

text \<open>
  C7, as stated, fails for an expression whose stored value is empty. The lookup is made for
  the empty value as well; when it completes with an error, the flag is set, and the render of
  the resource list hands the id of the first fetched resource to the debounced function with
  \<^verbatim>\<open>isUserOnChange\<close> false, so a change of the stored value reaches the context with no
  action of the user.
\<close>

theorem lookup_error_empty_value_counterexample:
  "resourceDetailsUrl (application_props \<lparr> expressionValue := '''' \<rparr>) = ''/applications/''
   \<and> resourceDetailsEffect False (Some ()) None = [setIsResourceMissing True, setResourceDetails None]
   \<and> map_sum id fst
        (ResourceListSelect None (application_props \<lparr> expressionValue := '''' \<rparr>) None (Some application_page))
       = Inr [handleExpressionChangeDebounced (Some ''7'') ''r1'' ''c1'' ''e1'' Value_kind False]
   \<and> dispatched_finally (run
        [(0, 0, calls_of (ResourceListSelect None (application_props \<lparr> expressionValue := '''' \<rparr>) None
                            (Some application_page))
                  @ resourceDetailsEffect False (Some ()) None)])
       = [updateConditionExpression (Some ''7'') ''r1'' ''c1'' ''e1'' Value_kind False]"
  by (simp add: resourceDetailsUrl_def resourceTypeOf_def resourceDetailsEffect_def
      ResourceListSelect_def calls_of_def application_props_def application_page_def Let_def
      run_def task_def timerExpired_def due_def initial_runtime_def dispatched_finally_def)

text \<open>
  C8. When the filtered collection's \<^verbatim>\<open>totalResults\<close> exceeds its \<^verbatim>\<open>count\<close>, the options
  of the autocomplete are the options of the state followed by the entry \<open>more-items\<close>, which
  is disabled; choosing that entry calls nothing.
\<close>

theorem more_items_sentinel:
  assumes "js_gt (totalResults filtered) (count filtered)"
  shows "autocompleteOptions t (Some filtered) options = options @ [moreItemsOption t]
         \<and> isDisabled (moreItemsOption t) = Some True
         \<and> autocomplete_onChange props (Some (moreItemsOption t)) = []
         \<and> task rt (now, k, autocomplete_onChange props (Some (moreItemsOption t))) = timerExpired now rt"
  using assms
  by (simp add: autocompleteOptions_def hasMoreItems_def moreItemsOption_def autocomplete_onChange_def
      task_def)

theorem more_items_sentinel_witness:
  "js_gt (totalResults application_page) (count application_page)
   \<and> map option_id (autocompleteOptions (\<lambda>k. k) (Some application_page)
        [\<lparr> option_id = Some ''7'', option_label = Some ''portal'', isDisabled = None \<rparr>])
       = [Some ''7'', Some ''more-items'']
   \<and> autocomplete_onChange application_autocomplete (Some (moreItemsOption (\<lambda>k. k))) = []
   \<and> autocomplete_onChange application_autocomplete
        (Some \<lparr> option_id = Some ''7'', option_label = Some ''portal'', isDisabled = None \<rparr>)
       = [handleExpressionChangeDebounced (Some ''7'') ''r1'' ''c1'' ''e1'' Value_kind True]"
proof -
  have more: "js_gt (totalResults application_page) (count application_page)"
    by (simp add: application_page_def)
  from more more_items_sentinel [OF more, where t = "\<lambda>k. k" and props = application_autocomplete
      and options = "[\<lparr> option_id = Some ''7'', option_label = Some ''portal'', isDisabled = None \<rparr>]"]
  show ?thesis
    by (simp add: moreItemsOption_def autocomplete_onChange_def application_autocomplete_def)
qed

end
